theory Spec2Isabelle
  imports Complex_Main
begin

section \<open>JavaScript values\<close>

text \<open>
  The normalizers of \<^verbatim>\<open>src/services/normalizers.ts\<close> take \<^verbatim>\<open>any\<close>: a raw payload is an
  arbitrary JavaScript value. Numbers are the finite values (kept exact, as rationals; IEEE
  rounding and overflow are not part of the model) together with \<^verbatim>\<open>NaN\<close> and the two
  infinities. Strings are lists of 8-bit code units. An object is the list of its own
  properties in insertion order; inherited (prototype) properties are not modelled.
\<close>

datatype jsnum = Fin rat | NaN | PosInf | NegInf

datatype jsval =
    Undefined
  | Null
  | Bool bool
  | Num jsnum
  | Str string
  | Arr "jsval list"
  | Obj "(string \<times> jsval) list"

datatype js_error = TypeError

fun isFinite :: "jsnum \<Rightarrow> bool" where
  "isFinite (Fin r) = True"
| "isFinite NaN = False"
| "isFinite PosInf = False"
| "isFinite NegInf = False"

fun num_add :: "jsnum \<Rightarrow> jsnum \<Rightarrow> jsnum" where
  "num_add (Fin a) (Fin b) = Fin (a + b)"
| "num_add NaN y = NaN"
| "num_add x NaN = NaN"
| "num_add PosInf NegInf = NaN"
| "num_add NegInf PosInf = NaN"
| "num_add PosInf y = PosInf"
| "num_add NegInf y = NegInf"
| "num_add x PosInf = PosInf"
| "num_add x NegInf = NegInf"

fun num_neg :: "jsnum \<Rightarrow> jsnum" where
  "num_neg (Fin a) = Fin (- a)"
| "num_neg NaN = NaN"
| "num_neg PosInf = NegInf"
| "num_neg NegInf = PosInf"



text \<open>The relational operator \<^verbatim>\<open><\<close> on numbers: false as soon as one side is \<^verbatim>\<open>NaN\<close>.\<close>

fun num_less :: "jsnum \<Rightarrow> jsnum \<Rightarrow> bool" where
  "num_less (Fin a) (Fin b) = (a < b)"
| "num_less NaN y = False"
| "num_less x NaN = False"
| "num_less PosInf y = False"
| "num_less x NegInf = False"
| "num_less NegInf y = True"
| "num_less x PosInf = True"

text \<open>Truthiness (\<^verbatim>\<open>if (v)\<close>, \<^verbatim>\<open>!v\<close>, \<^verbatim>\<open>a || b\<close>, \<^verbatim>\<open>filter(Boolean)\<close>).\<close>

fun truthy :: "jsval \<Rightarrow> bool" where
  "truthy Undefined = False"
| "truthy Null = False"
| "truthy (Bool b) = b"
| "truthy (Num n) = (n \<noteq> Fin 0 \<and> n \<noteq> NaN)"
| "truthy (Str s) = (s \<noteq> [])"
| "truthy (Arr xs) = True"
| "truthy (Obj kvs) = True"

text \<open>\<^verbatim>\<open>a ?? b\<close> and \<^verbatim>\<open>a || b\<close>.\<close>

fun nullish :: "jsval \<Rightarrow> bool" where
  "nullish Undefined = True"
| "nullish Null = True"
| "nullish v = False"

definition coalesce :: "jsval \<Rightarrow> jsval \<Rightarrow> jsval" where
  "coalesce a b = (if nullish a then b else a)"

definition js_or :: "jsval \<Rightarrow> jsval \<Rightarrow> jsval" where
  "js_or a b = (if truthy a then a else b)"

subsection \<open>Strings\<close>

text \<open>
  \<^verbatim>\<open>String.prototype.trim\<close> strips white space and line terminators at both ends;
  in the 8-bit range these are TAB, LF, VT, FF, CR, space and the no-break space.
\<close>

definition js_whitespace :: "char \<Rightarrow> bool" where
  "js_whitespace c = (of_char c \<in> {9, 10, 11, 12, 13, 32, 160 :: nat})"

definition trim :: "string \<Rightarrow> string" where
  "trim s = rev (dropWhile js_whitespace (rev (dropWhile js_whitespace s)))"

definition lower_char :: "char \<Rightarrow> char" where
  "lower_char c =
     (let n = (of_char c :: nat) in
      if (65 \<le> n \<and> n \<le> 90) \<or> (192 \<le> n \<and> n \<le> 222 \<and> n \<noteq> 215)
      then char_of (n + 32) else c)"

definition toLowerCase :: "string \<Rightarrow> string" where
  "toLowerCase s = map lower_char s"

definition startsWith :: "string \<Rightarrow> string \<Rightarrow> bool" where
  "startsWith s p = (take (length p) s = p)"

definition endsWith :: "string \<Rightarrow> string \<Rightarrow> bool" where
  "endsWith s p = (length p \<le> length s \<and> drop (length s - length p) s = p)"

text \<open>\<^verbatim>\<open>s.replace(pat, rep)\<close> with a string pattern: the first occurrence only.\<close>

fun replace_first :: "string \<Rightarrow> string \<Rightarrow> string \<Rightarrow> string" where
  "replace_first pat rep [] = (if pat = [] then rep else [])"
| "replace_first pat rep (c # cs) =
     (if startsWith (c # cs) pat then rep @ drop (length pat) (c # cs)
      else c # replace_first pat rep cs)"

fun join :: "string \<Rightarrow> string list \<Rightarrow> string" where
  "join sep [] = []"
| "join sep [x] = x"
| "join sep (x # y # ys) = x @ sep @ join sep (y # ys)"

subsection \<open>Property access\<close>

definition is_digit :: "char \<Rightarrow> bool" where
  "is_digit c = (48 \<le> (of_char c :: nat) \<and> (of_char c :: nat) \<le> 57)"

definition digits_value :: "string \<Rightarrow> nat" where
  "digits_value ds = foldl (\<lambda>a c. 10 * a + (of_char c - 48)) 0 ds"

text \<open>A property name is an array index when it is a canonical decimal numeral.\<close>

definition array_index :: "string \<Rightarrow> nat option" where
  "array_index k =
     (if k \<noteq> [] \<and> list_all is_digit k \<and> (k = ''0'' \<or> hd k \<noteq> CHR ''0'')
      then Some (digits_value k) else None)"

text \<open>
  \<^verbatim>\<open>v?.k\<close> and \<^verbatim>\<open>v[k]\<close>. On \<^verbatim>\<open>null\<close> and \<^verbatim>\<open>undefined\<close> the optional chain gives
  \<^verbatim>\<open>undefined\<close>; every plain access of the modelled code is behind a guard that
  excludes these two values, so one function serves both. Arrays and strings have their
  \<^verbatim>\<open>length\<close> and their indices; numbers and booleans have no own property.
\<close>

fun get :: "jsval \<Rightarrow> string \<Rightarrow> jsval" where
  "get (Obj kvs) k = (case map_of kvs k of Some v \<Rightarrow> v | None \<Rightarrow> Undefined)"
| "get (Arr xs) k =
     (if k = ''length'' then Num (Fin (of_nat (length xs)))
      else case array_index k of
        Some i \<Rightarrow> (if i < length xs then xs ! i else Undefined)
      | None \<Rightarrow> Undefined)"
| "get (Str s) k =
     (if k = ''length'' then Num (Fin (of_nat (length s)))
      else case array_index k of
        Some i \<Rightarrow> (if i < length s then Str [s ! i] else Undefined)
      | None \<Rightarrow> Undefined)"
| "get v k = Undefined"

fun is_string :: "jsval \<Rightarrow> bool" where
  "is_string (Str s) = True"
| "is_string v = False"

fun isArray :: "jsval \<Rightarrow> bool" where
  "isArray (Arr xs) = True"
| "isArray v = False"

fun elements :: "jsval \<Rightarrow> jsval list" where
  "elements (Arr xs) = xs"
| "elements v = []"

text \<open>\<^verbatim>\<open>typeof v === 'object'\<close>: objects, arrays and \<^verbatim>\<open>null\<close>.\<close>

fun typeof_object :: "jsval \<Rightarrow> bool" where
  "typeof_object (Obj kvs) = True"
| "typeof_object (Arr xs) = True"
| "typeof_object Null = True"
| "typeof_object v = False"

section \<open>The host\<close>

text \<open>
  What the code takes from its environment rather than from the repository: the build
  configuration read by \<^verbatim>\<open>getBaseUrl\<close>, the built-in conversions between numbers and
  strings, the URL parser behind \<^verbatim>\<open>new URL(path)\<close> (\<open>None\<close> when the constructor throws,
  otherwise host name and path name), and the module variable \<^verbatim>\<open>currentLocale\<close> of
  \<^verbatim>\<open>i18n/locale\<close>. The properties below hold for every host.
\<close>

record host =
  envUrl :: "string option"
  devMode :: bool
  platformOS :: string
  parseURL :: "string \<Rightarrow> (string \<times> string) option"
  numberOfString :: "string \<Rightarrow> jsnum"
  stringOfNumber :: "jsnum \<Rightarrow> string"
  parseFloat :: "string \<Rightarrow> jsnum"
  toFixed2 :: "jsnum \<Rightarrow> string"
  currentLocale :: string

text \<open>\<^verbatim>\<open>String(v)\<close>; an array is its elements joined by commas, \<^verbatim>\<open>null\<close> and
  \<^verbatim>\<open>undefined\<close> elements printing as nothing.\<close>

fun to_string :: "host \<Rightarrow> jsval \<Rightarrow> string" where
  "to_string h Undefined = ''undefined''"
| "to_string h Null = ''null''"
| "to_string h (Bool b) = (if b then ''true'' else ''false'')"
| "to_string h (Num n) = stringOfNumber h n"
| "to_string h (Str s) = s"
| "to_string h (Arr xs) = join '','' (map (\<lambda>x. if nullish x then [] else to_string h x) xs)"
| "to_string h (Obj kvs) = ''[object Object]''"

text \<open>\<^verbatim>\<open>Number(v)\<close>; arrays and objects go through their string form.\<close>

fun to_number :: "host \<Rightarrow> jsval \<Rightarrow> jsnum" where
  "to_number h Undefined = NaN"
| "to_number h Null = Fin 0"
| "to_number h (Bool b) = (if b then Fin 1 else Fin 0)"
| "to_number h (Num n) = n"
| "to_number h (Str s) = numberOfString h s"
| "to_number h v = numberOfString h (to_string h v)"

text \<open>The binary \<^verbatim>\<open>+\<close>: concatenation as soon as one operand is, or converts to, a
  string; numeric addition otherwise.\<close>

fun to_primitive :: "host \<Rightarrow> jsval \<Rightarrow> jsval" where
  "to_primitive h (Arr xs) = Str (to_string h (Arr xs))"
| "to_primitive h (Obj kvs) = Str (to_string h (Obj kvs))"
| "to_primitive h v = v"

definition js_plus :: "host \<Rightarrow> jsval \<Rightarrow> jsval \<Rightarrow> jsval" where
  "js_plus h a b =
     (let pa = to_primitive h a; pb = to_primitive h b in
      if is_string pa \<or> is_string pb then Str (to_string h pa @ to_string h pb)
      else Num (num_add (to_number h pa) (to_number h pb)))"

section \<open>Type coercion (normalizers.ts)\<close>

text \<open>
  \<^verbatim>\<open>toBool(value, label)\<close>. The \<^verbatim>\<open>label\<close> only tags a \<^verbatim>\<open>console.warn\<close> line and has no
  influence on the result, so the model leaves the parameter out.
\<close>

definition toBool :: "jsval \<Rightarrow> bool" where
  "toBool v =
     (if v = Bool True then True
      else if v = Bool False then False
      else if v = Num (Fin 1) \<or> v = Str ''1'' then True
      else if v = Num (Fin 0) \<or> v = Str ''0'' then False
      else case v of
        Str s \<Rightarrow>
          (let normalized = toLowerCase (trim s) in
           if normalized = ''true'' \<or> normalized = ''yes'' \<or> normalized = ''on'' then True
           else if normalized = ''false'' \<or> normalized = ''no'' \<or> normalized = ''off''
                   \<or> normalized = '''' then False
           else False)
      | _ \<Rightarrow>
          (if v = Null \<or> v = Undefined then False
           else if truthy v then True else False))"

definition safeString :: "host \<Rightarrow> jsval \<Rightarrow> string \<Rightarrow> string" where
  "safeString h v fallback = (if v = Null \<or> v = Undefined then fallback else to_string h v)"

definition safeNumber :: "host \<Rightarrow> jsval \<Rightarrow> jsnum \<Rightarrow> jsnum" where
  "safeNumber h v fallback =
     (let parsed = to_number h v in if isFinite parsed then parsed else fallback)"

definition unwrapCollection :: "jsval \<Rightarrow> jsval list" where
  "unwrapCollection v =
     (if isArray v then elements v
      else if truthy v \<and> isArray (get v ''data'') then elements (get v ''data'')
      else [])"

section \<open>Field resolution (i18n/locale)\<close>

definition setCurrentLocale :: "string \<Rightarrow> host \<Rightarrow> host" where
  "setCurrentLocale locale h = h\<lparr>currentLocale := (if locale \<noteq> [] then locale else ''en'')\<rparr>"

definition readLocalizedValue :: "jsval \<Rightarrow> string \<Rightarrow> jsval" where
  "readLocalizedValue v locale =
     (if \<not> truthy v then Undefined
      else if is_string v then v
      else if typeof_object v then
        (if truthy (get v locale) then get v locale
         else if truthy (get v ''en'') then get v ''en''
         else Undefined)
      else Undefined)"

text \<open>\<^verbatim>\<open>getLocalizedField(source, field, fallback)\<close>, with the locale that
  \<^verbatim>\<open>getCurrentLocale()\<close> reads as an explicit argument.\<close>

definition getLocalizedField :: "string \<Rightarrow> jsval \<Rightarrow> string \<Rightarrow> jsval \<Rightarrow> jsval" where
  "getLocalizedField locale source field fallback =
     (if \<not> truthy source then fallback
      else
        let localizedKey = field @ ''_'' @ locale in
        if truthy (get source localizedKey) then get source localizedKey
        else
          let fieldValue = get source field;
              localizedValue = readLocalizedValue fieldValue locale in
          if truthy localizedValue then localizedValue
          else
            let translations = js_or (get source ''translations'') (get source ''i18n'') in
            if truthy translations \<and> truthy (get translations locale)
               \<and> truthy (get (get translations locale) field)
            then get (get translations locale) field
            else if is_string fieldValue then fieldValue
            else fallback)"

section \<open>Image URLs (services/api)\<close>

definition strip_trailing_slashes :: "string \<Rightarrow> string" where
  "strip_trailing_slashes url = rev (dropWhile (\<lambda>c. c = CHR ''/'') (rev url))"

definition normalizeApiUrl :: "string \<Rightarrow> string" where
  "normalizeApiUrl url =
     (let trimmed = strip_trailing_slashes url in
      if endsWith trimmed ''/api'' then trimmed else trimmed @ ''/api'')"

definition getBaseUrl :: "host \<Rightarrow> string" where
  "getBaseUrl h =
     (case envUrl h of
        Some u \<Rightarrow>
          (if u \<noteq> [] then normalizeApiUrl u
           else if devMode h then
             (if platformOS h = ''android'' then ''http://10.0.2.2:8000/api''
              else ''http://localhost:8000/api'')
           else ''https://your-production-api.com/api'')
      | None \<Rightarrow>
          (if devMode h then
             (if platformOS h = ''android'' then ''http://10.0.2.2:8000/api''
              else ''http://localhost:8000/api'')
           else ''https://your-production-api.com/api''))"

text \<open>
  \<^verbatim>\<open>getImageUrl(path)\<close>. The parameter is declared \<^verbatim>\<open>string | null | undefined\<close>, but the
  normalizers pass raw payload fields. A falsy value returns \<^verbatim>\<open>undefined\<close>; on any other
  value the code calls \<^verbatim>\<open>path.startsWith\<close>, which only a string has: for a number, a
  boolean, an array or an object the call raises a \<^verbatim>\<open>TypeError\<close>.
\<close>

definition getImageUrl :: "host \<Rightarrow> jsval \<Rightarrow> js_error + jsval" where
  "getImageUrl h path =
     (if \<not> truthy path then Inr Undefined
      else case path of
        Str p \<Rightarrow>
          (let baseUrl = replace_first ''/api'' [] (getBaseUrl h) in
           if startsWith p ''http'' then
             (case parseURL h p of
                None \<Rightarrow> Inr (Str p)
              | Some (hostname, pathname) \<Rightarrow>
                  (if hostname \<in> set [''localhost'', ''127.0.0.1'', ''10.0.2.2'']
                   then Inr (Str (baseUrl @ pathname))
                   else Inr (Str p)))
           else
             (let cleanPath = (if startsWith p ''/'' then p else ''/'' @ p);
                  cleanPath2 = (if \<not> startsWith cleanPath ''/storage''
                                then ''/storage'' @ cleanPath else cleanPath)
              in Inr (Str (baseUrl @ cleanPath2))))
      | _ \<Rightarrow> Inl TypeError)"

section \<open>Entity normalizers (services/normalizers)\<close>

text \<open>
  A normalizer returns the entity as an object literal, or raises what \<^verbatim>\<open>getImageUrl\<close>
  raises. \<open>bind_err\<close> sequences two computations that may raise and \<open>map_err\<close> is
  \<^verbatim>\<open>Array.prototype.map\<close> with a callback that may raise.
\<close>

definition bind_err :: "'e + 'a \<Rightarrow> ('a \<Rightarrow> 'e + 'b) \<Rightarrow> 'e + 'b" where
  "bind_err m f = (case m of Inl e \<Rightarrow> Inl e | Inr a \<Rightarrow> f a)"

fun map_err :: "('a \<Rightarrow> 'e + 'b) \<Rightarrow> 'a list \<Rightarrow> 'e + 'b list" where
  "map_err f [] = Inr []"
| "map_err f (x # xs) =
     (case f x of
        Inl e \<Rightarrow> Inl e
      | Inr y \<Rightarrow> (case map_err f xs of Inl e \<Rightarrow> Inl e | Inr ys \<Rightarrow> Inr (y # ys)))"

lemma map_err_cong [fundef_cong]:
  "xs = ys \<Longrightarrow> (\<And>x. x \<in> set ys \<Longrightarrow> f x = g x) \<Longrightarrow> map_err f xs = map_err g ys"
  by (induction ys arbitrary: xs) (auto split: sum.splits)

lemma size_map_of:
  "map_of kvs k = Some v \<Longrightarrow> size v < Suc (size_list (size_prod (\<lambda>_. 0) size) kvs)"
  by (induction kvs) (auto split: if_splits)

lemma size_nth_elem: "i < length xs \<Longrightarrow> size (xs ! i) \<le> size_list size xs"
  using size_list_estimation' [OF nth_mem, of i xs "size (xs ! i)" size] by simp

lemma size_get: "size (get v k) \<le> size v"
proof (cases v)
  case (Obj kvs)
  then show ?thesis
    using size_map_of [of kvs k] by (auto split: option.splits simp: less_Suc_eq_le)
next
  case (Arr xs)
  then show ?thesis
    using size_nth_elem [of _ xs] by (auto split: option.splits simp: le_SucI)
qed (auto split: option.splits)

lemma size_elements: "x \<in> set (elements v) \<Longrightarrow> size x < size v"
  by (cases v) (auto simp: less_Suc_eq_le size_list_estimation')

lemma size_unwrapCollection: "x \<in> set (unwrapCollection v) \<Longrightarrow> size x < size v"
proof -
  assume a: "x \<in> set (unwrapCollection v)"
  show ?thesis
  proof (cases "isArray v")
    case True
    with a show ?thesis by (simp add: unwrapCollection_def size_elements)
  next
    case False
    with a have "x \<in> set (elements (get v ''data''))"
      by (auto simp: unwrapCollection_def split: if_splits)
    then have "size x < size (get v ''data'')" by (rule size_elements)
    also have "\<dots> \<le> size v" by (rule size_get)
    finally show ?thesis .
  qed
qed

definition normalizeSlide :: "host \<Rightarrow> jsval \<Rightarrow> js_error + jsval" where
  "normalizeSlide h slide =
     bind_err (getImageUrl h (coalesce (get slide ''image_url'') (get slide ''image''))) (\<lambda>image.
     Inr (Obj [
       (''id'', coalesce (get slide ''id'') (Num (Fin 0))),
       (''title'', getLocalizedField (currentLocale h) slide ''title''
                     (Str (safeString h (get slide ''title'') []))),
       (''subtitle'', getLocalizedField (currentLocale h) slide ''subtitle''
                     (Str (safeString h (get slide ''subtitle'') []))),
       (''image'', js_or image (Str [])),
       (''title_en'', Str (safeString h (coalesce (get slide ''title_en'') (get slide ''title'')) [])),
       (''title_ar'', Str (safeString h (get slide ''title_ar'') [])),
       (''title_ku'', Str (safeString h (get slide ''title_ku'') [])),
       (''title_ku_sorani'', Str (safeString h (get slide ''title_ku_sorani'') [])),
       (''title_ku_badini'', Str (safeString h (get slide ''title_ku_badini'') [])),
       (''subtitle_en'', Str (safeString h (coalesce (get slide ''subtitle_en'') (get slide ''subtitle'')) [])),
       (''subtitle_ar'', Str (safeString h (get slide ''subtitle_ar'') [])),
       (''subtitle_ku'', Str (safeString h (get slide ''subtitle_ku'') [])),
       (''subtitle_ku_sorani'', Str (safeString h (get slide ''subtitle_ku_sorani'') [])),
       (''subtitle_ku_badini'', Str (safeString h (get slide ''subtitle_ku_badini'') [])),
       (''link_type'', coalesce (get slide ''link_type'') (Str ''url'')),
       (''link_value'', coalesce (get slide ''link_value'') (coalesce (get slide ''link'') (Str [])))
     ]))"

function normalizeCategory :: "host \<Rightarrow> jsval \<Rightarrow> js_error + jsval" where
  "normalizeCategory h category =
     bind_err (getImageUrl h (coalesce (get category ''image_url'') (get category ''image''))) (\<lambda>image.
     bind_err (if isArray (get category ''hero_images'')
               then map_err (getImageUrl h) (elements (get category ''hero_images''))
               else Inr []) (\<lambda>hero_images.
     bind_err (map_err (normalizeCategory h) (unwrapCollection (get category ''children''))) (\<lambda>children.
     Inr (Obj [
       (''id'', coalesce (get category ''id'') (Num (Fin 0))),
       (''name'', getLocalizedField (currentLocale h) category ''name''
                    (Str (safeString h (get category ''name'') []))),
       (''slug'', Str (safeString h (get category ''slug'') [])),
       (''icon'', Str (safeString h (get category ''icon'') [])),
       (''image'', js_or image (Str [])),
       (''hero_images'', Arr (filter truthy hero_images)),
       (''name_en'', Str (safeString h (coalesce (get category ''name_en'') (get category ''name'')) [])),
       (''name_ar'', Str (safeString h (get category ''name_ar'') [])),
       (''name_ku'', Str (safeString h (get category ''name_ku'') [])),
       (''name_ku_sorani'', Str (safeString h (get category ''name_ku_sorani'') [])),
       (''name_ku_badini'', Str (safeString h (get category ''name_ku_badini'') [])),
       (''parent_id'', coalesce (get category ''parent_id'') Null),
       (''products_count'', get category ''products_count''),
       (''children'', Arr children)
     ]))))"
  by pat_completeness auto
termination
proof (relation "measure (\<lambda>(h, category). size category)")
  show "wf (measure (\<lambda>(h, category). size category))" by simp
next
  fix h :: host and category x :: jsval and image hero_images :: jsval
  fix xa xb
  assume "x \<in> set (unwrapCollection (get category ''children''))"
  then have "size x < size (get category ''children'')" by (rule size_unwrapCollection)
  also have "\<dots> \<le> size category" by (rule size_get)
  finally show "((h, x), (h, category)) \<in> measure (\<lambda>(h, category). size category)" by simp
qed

definition normalizeVendor :: "host \<Rightarrow> jsval \<Rightarrow> js_error + jsval" where
  "normalizeVendor h vendor =
     (let status = coalesce (get vendor ''status'') (Str []);
          hasIsVerified = (get vendor ''is_verified'' \<noteq> Undefined \<and> get vendor ''is_verified'' \<noteq> Null)
      in
      bind_err (getImageUrl h (coalesce (get vendor ''profile_image_url'')
                  (coalesce (get vendor ''logo'') (get vendor ''profile_image'')))) (\<lambda>logo.
      bind_err (getImageUrl h (coalesce (get vendor ''cover_image_url'')
                  (coalesce (get vendor ''banner'') (get vendor ''cover_image'')))) (\<lambda>banner.
      Inr (Obj [
        (''id'', coalesce (get vendor ''id'') (Num (Fin 0))),
        (''name'', Str (safeString h (coalesce (get vendor ''store_name'') (get vendor ''name'')) [])),
        (''slug'', Str (safeString h (get vendor ''slug'') [])),
        (''description'', Str (safeString h (get vendor ''description'') [])),
        (''logo'', js_or logo (Str [])),
        (''banner'', js_or banner (Str [])),
        (''is_verified'', Bool (if hasIsVerified then toBool (get vendor ''is_verified'')
                                else status = Str ''approved''))
      ]))))"

definition normalizeProductVariant :: "host \<Rightarrow> jsval \<Rightarrow> jsval" where
  "normalizeProductVariant h variant =
     (let attributes =
            (if truthy (get variant ''size'')
             then [(''size'', Str (safeString h (get variant ''size'') []))] else [])
          @ (if truthy (get variant ''color'')
             then [(''color'', Str (safeString h (get variant ''color'') []))] else []);
          nameParts = map (\<lambda>part. safeString h part [])
                        (filter truthy [get variant ''name'', get variant ''size'', get variant ''color'']);
          fallbackName =
            (if length nameParts > 0 then join '' '' nameParts
             else trim (''Variant '' @ to_string h (coalesce (get variant ''id'') (Str []))))
      in
      Obj [
        (''id'', coalesce (get variant ''id'') (Num (Fin 0))),
        (''name'', Str (safeString h (Str fallbackName) [])),
        (''sku'', Str (safeString h (get variant ''sku'') [])),
        (''price'', Str (safeString h (coalesce (get variant ''effective_price'')
                      (coalesce (get variant ''price'') (Str ''0''))) [])),
        (''compare_price'', coalesce (get variant ''compare_price'') Null),
        (''stock'', Num (safeNumber h (get variant ''stock'') (Fin 0))),
        (''attributes'', Obj attributes)
      ])"

text \<open>
  \<^verbatim>\<open>getImageUrl(product?.thumbnail) || getImageUrl(image_url ?? image) || images[0] || ''\<close>:
  the second call is made only when the first result is falsy.
\<close>

definition product_thumbnail :: "host \<Rightarrow> jsval \<Rightarrow> jsval list \<Rightarrow> js_error + jsval" where
  "product_thumbnail h product images =
     bind_err (getImageUrl h (get product ''thumbnail'')) (\<lambda>t1.
     if truthy t1 then Inr t1
     else bind_err (getImageUrl h (coalesce (get product ''image_url'') (get product ''image''))) (\<lambda>t2.
          Inr (js_or t2 (js_or (case images of [] \<Rightarrow> Undefined | x # xs \<Rightarrow> x) (Str [])))))"

definition normalizeProduct :: "host \<Rightarrow> jsval \<Rightarrow> js_error + jsval" where
  "normalizeProduct h product =
     (let rawImages = (if isArray (get product ''images'') then elements (get product ''images'') else []) in
      bind_err (map_err (getImageUrl h) rawImages) (\<lambda>urls.
      let images = filter truthy urls in
      bind_err (product_thumbnail h product images) (\<lambda>thumbnail.
      let variants = map (normalizeProductVariant h) (unwrapCollection (get product ''variants''));
          inStock =
            (if get product ''in_stock'' \<noteq> Undefined then toBool (get product ''in_stock'')
             else list_ex (\<lambda>variant. num_less (Fin 0) (to_number h (get variant ''stock''))) variants);
          hasIsWishlisted = (get product ''is_wishlisted'' \<noteq> Undefined \<and> get product ''is_wishlisted'' \<noteq> Null);
          hasIsActive = (get product ''is_active'' \<noteq> Undefined \<and> get product ''is_active'' \<noteq> Null)
      in
      bind_err (if truthy (get product ''category'')
                then normalizeCategory h (get product ''category'') else Inr Undefined) (\<lambda>category.
      bind_err (if truthy (get product ''vendor'')
                then normalizeVendor h (get product ''vendor'') else Inr Undefined) (\<lambda>vendor.
      Inr (Obj [
        (''id'', coalesce (get product ''id'') (Num (Fin 0))),
        (''name'', getLocalizedField (currentLocale h) product ''name''
                     (Str (safeString h (get product ''name'') []))),
        (''slug'', Str (safeString h (get product ''slug'') [])),
        (''description'', getLocalizedField (currentLocale h) product ''description''
                     (Str (safeString h (get product ''description'') []))),
        (''short_description'', Str (safeString h
            (getLocalizedField (currentLocale h) product ''short_description''
               (Str (safeString h (coalesce (get product ''short_description'') (get product ''description'')) [])))
            [])),
        (''name_en'', Str (safeString h (coalesce (get product ''name_en'') (get product ''name'')) [])),
        (''name_ar'', Str (safeString h (get product ''name_ar'') [])),
        (''name_ku'', Str (safeString h (get product ''name_ku'') [])),
        (''name_ku_sorani'', Str (safeString h (get product ''name_ku_sorani'') [])),
        (''name_ku_badini'', Str (safeString h (get product ''name_ku_badini'') [])),
        (''description_en'', Str (safeString h (coalesce (get product ''description_en'') (get product ''description'')) [])),
        (''description_ar'', Str (safeString h (get product ''description_ar'') [])),
        (''description_ku'', Str (safeString h (get product ''description_ku'') [])),
        (''description_ku_sorani'', Str (safeString h (get product ''description_ku_sorani'') [])),
        (''description_ku_badini'', Str (safeString h (get product ''description_ku_badini'') [])),
        (''price'', Str (safeString h (coalesce (get product ''price'')
                      (coalesce (get product ''base_price'')
                         (coalesce (get product ''min_price'') (Str ''0'')))) [])),
        (''compare_price'', coalesce (get product ''compare_price'') Null),
        (''discount_percentage'', coalesce (get product ''discount_percentage'') Null),
        (''is_wishlisted'', if hasIsWishlisted then Bool (toBool (get product ''is_wishlisted'')) else Undefined),
        (''status'', Str (safeString h (coalesce (get product ''status'') (Str [])) [])),
        (''is_active'', if hasIsActive then Bool (toBool (get product ''is_active'')) else Undefined),
        (''images'', Arr images),
        (''thumbnail'', thumbnail),
        (''category'', category),
        (''vendor'', vendor),
        (''variants'', Arr variants),
        (''in_stock'', Bool inStock),
        (''average_rating'', Num (safeNumber h (get product ''average_rating'') (Fin 0))),
        (''reviews_count'', Num (safeNumber h (get product ''reviews_count'') (Fin 0)))
      ]))))))"

definition normalizeCartItem :: "host \<Rightarrow> jsval \<Rightarrow> js_error + jsval" where
  "normalizeCartItem h item =
     bind_err (normalizeProduct h (coalesce (get item ''product'') (Obj []))) (\<lambda>product.
     Inr (Obj [
       (''id'', coalesce (get item ''id'') (Num (Fin 0))),
       (''product'', product),
       (''variant'', if truthy (get item ''variant'')
                     then normalizeProductVariant h (get item ''variant'') else Null),
       (''quantity'', Num (safeNumber h (get item ''quantity'') (Fin 0))),
       (''unit_price'', Str (safeString h (coalesce (get item ''unit_price'')
                          (coalesce (get item ''price'') (Str ''0''))) [])),
       (''subtotal'', Str (safeString h (coalesce (get item ''subtotal'') (Str ''0'')) []))
     ]))"

text \<open>\<^verbatim>\<open>items.reduce((total, item) => total + (item.quantity || 0), 0)\<close>\<close>

definition sum_quantities :: "host \<Rightarrow> jsval list \<Rightarrow> jsval" where
  "sum_quantities h items =
     foldl (\<lambda>total item. js_plus h total (js_or (get item ''quantity'') (Num (Fin 0))))
       (Num (Fin 0)) items"

definition normalizeCart :: "host \<Rightarrow> jsval \<Rightarrow> js_error + jsval" where
  "normalizeCart h payload =
     bind_err (map_err (normalizeCartItem h) (unwrapCollection (get payload ''items''))) (\<lambda>items.
     let summary = coalesce (get payload ''summary'') (Obj []);
         itemsCount = coalesce (get summary ''items_count'') (sum_quantities h items);
         subtotal = coalesce (get summary ''subtotal'') (coalesce (get summary ''total'') (Str ''0''));
         total = coalesce (get summary ''total'') (coalesce subtotal (Str ''0''))
     in
     Inr (Obj [
       (''items'', Arr items),
       (''items_count'', Num (safeNumber h itemsCount (Fin 0))),
       (''subtotal'', Str (safeString h subtotal [])),
       (''total'', Str (safeString h total []))
     ]))"

definition normalizeAddress :: "host \<Rightarrow> jsval \<Rightarrow> jsval" where
  "normalizeAddress h address =
     Obj [
       (''id'', coalesce (get address ''id'') (Num (Fin 0))),
       (''label'', Str (safeString h (get address ''label'') [])),
       (''recipient_name'', Str (safeString h (coalesce (get address ''recipient_name'') (get address ''full_name'')) [])),
       (''phone'', Str (safeString h (get address ''phone'') [])),
       (''street_address'', Str (safeString h (coalesce (get address ''street_address'') (get address ''address_line_1'')) [])),
       (''city'', Str (safeString h (get address ''city'') [])),
       (''state'', Str (safeString h (get address ''state'') [])),
       (''postal_code'', Str (safeString h (get address ''postal_code'') [])),
       (''country'', Str (safeString h (get address ''country'') [])),
       (''is_default'', Bool (toBool (get address ''is_default''))),
       (''full_address'', Str (safeString h (get address ''full_address'') []))
     ]"

definition normalizeOrder :: "host \<Rightarrow> jsval \<Rightarrow> jsval" where
  "normalizeOrder h order =
     (let total = coalesce (get order ''total'')
                    (coalesce (get order ''total_amount'')
                       (coalesce (get order ''subtotal'') (Str ''0'')))
      in
      Obj [
        (''id'', coalesce (get order ''id'') (Num (Fin 0))),
        (''order_number'', Str (safeString h (coalesce (get order ''order_number'')
                              (coalesce (get order ''order_no'') (Str []))) [])),
        (''status'', Str (safeString h (get order ''status'') [])),
        (''items'', Arr []),
        (''subtotal'', Str (safeString h (coalesce (get order ''subtotal'') total) [])),
        (''total'', Str (safeString h total [])),
        (''created_at'', Str (safeString h (get order ''created_at'') []))
      ])"

definition normalizeUser :: "host \<Rightarrow> jsval \<Rightarrow> jsval" where
  "normalizeUser h user =
     (let hasIsVendor = (get user ''is_vendor'' \<noteq> Undefined \<and> get user ''is_vendor'' \<noteq> Null);
          isVendor = (if hasIsVendor then toBool (get user ''is_vendor'')
                      else get user ''role'' = Str ''vendor'')
      in
      Obj [
        (''id'', coalesce (get user ''id'') (Num (Fin 0))),
        (''name'', Str (safeString h (get user ''name'') [])),
        (''email'', Str (safeString h (get user ''email'') [])),
        (''phone'', coalesce (get user ''phone'') Null),
        (''avatar'', coalesce (get user ''avatar'') Null),
        (''is_vendor'', Bool isVendor)
      ])"

definition normalizeCoupon :: "host \<Rightarrow> jsval \<Rightarrow> jsval" where
  "normalizeCoupon h coupon =
     (let type = (if get coupon ''type'' = Str ''fixed'' then ''fixed'' else ''percent'') in
      Obj [
        (''id'', coalesce (get coupon ''id'') (Num (Fin 0))),
        (''code'', Str (safeString h (get coupon ''code'') [])),
        (''type'', Str type),
        (''value'', Str (safeString h (coalesce (get coupon ''value'') (Str ''0'')) [])),
        (''expires_at'', coalesce (get coupon ''expires_at'') Null),
        (''is_active'', Bool (toBool (get coupon ''is_active'')))
      ])"

section \<open>Cart endpoints (services/endpoints)\<close>

text \<open>
  A request either rejects with an error (its \<^verbatim>\<open>message\<close>, and the \<^verbatim>\<open>response\<close> of an HTTP
  error when there is one) or resolves with the \<^verbatim>\<open>data\<close> of its response. An exception
  raised inside an \<^verbatim>\<open>async\<close> function rejects its promise; the text of a
  \<^verbatim>\<open>TypeError\<close> is the engine's.
\<close>

record api_error =
  message :: string
  response :: jsval

definition thrown :: "js_error \<Rightarrow> api_error" where
  "thrown e = \<lparr>message = ''path.startsWith is not a function'', response = Undefined\<rparr>"

definition getCart :: "host \<Rightarrow> api_error + jsval \<Rightarrow> api_error + jsval" where
  "getCart h cartResponse =
     (case cartResponse of
        Inl e \<Rightarrow> Inl e
      | Inr data \<Rightarrow>
          (case normalizeCart h data of Inl e \<Rightarrow> Inl (thrown e) | Inr cart \<Rightarrow> Inr cart))"

text \<open>\<^verbatim>\<open>{...obj, key: value}\<close>: the key keeps its place when the object has it already.\<close>

fun assign :: "(string \<times> jsval) list \<Rightarrow> string \<Rightarrow> jsval \<Rightarrow> (string \<times> jsval) list" where
  "assign [] k v = [(k, v)]"
| "assign ((k', v') # kvs) k v = (if k' = k then (k, v) # kvs else (k', v') # assign kvs k v)"

fun spread_with :: "jsval \<Rightarrow> string \<Rightarrow> jsval \<Rightarrow> jsval" where
  "spread_with (Obj kvs) k v = Obj (assign kvs k v)"
| "spread_with other k v = Obj [(k, v)]"

text \<open>
  \<^verbatim>\<open>applyCoupon(code)\<close> awaits \<^verbatim>\<open>Promise.all\<close> of the two requests \<^verbatim>\<open>GET /cart\<close> and
  \<^verbatim>\<open>POST /cart/coupon\<close>; it rejects when one of them does (the model reports the first
  request's error when both fail).
\<close>

definition applyCoupon :: "host \<Rightarrow> api_error + jsval \<Rightarrow> api_error + jsval \<Rightarrow> api_error + jsval" where
  "applyCoupon h cartResponse couponResponse =
     (case cartResponse of
        Inl e \<Rightarrow> Inl e
      | Inr cartResponseData \<Rightarrow>
          (case couponResponse of
             Inl e \<Rightarrow> Inl e
           | Inr couponResponseData \<Rightarrow>
               (case normalizeCart h cartResponseData of
                  Inl e \<Rightarrow> Inl (thrown e)
                | Inr cart \<Rightarrow>
                    (let couponData = coalesce couponResponseData (Obj []) in
                     Inr (spread_with
                            (spread_with cart ''subtotal''
                               (Str (to_string h (coalesce (get couponData ''subtotal'') (get cart ''subtotal'')))))
                            ''total''
                            (Str (to_string h (coalesce (get couponData ''total'') (get cart ''total'')))))))))"

section \<open>The cart screen (screens/CartScreen)\<close>

text \<open>The types \<^verbatim>\<open>CartItem\<close> and \<^verbatim>\<open>Cart\<close> of \<^verbatim>\<open>types\<close>; product and variant stay raw values.\<close>

record CartItem =
  item_id :: jsnum
  product :: jsval
  variant :: jsval
  quantity :: jsnum
  unit_price :: string
  item_subtotal :: string

record Cart =
  items :: "CartItem list"
  items_count :: "jsnum option"
  subtotal :: string
  total :: string

text \<open>
  The component state (\<^verbatim>\<open>useState\<close>), the cart of the \<^verbatim>\<open>CartContext\<close> that \<^verbatim>\<open>syncCart\<close>
  writes, and the alerts shown so far (title and message). The state is polymorphic in
  the cart: the quantity handlers work on a \<^verbatim>\<open>Cart\<close>, \<^verbatim>\<open>handleApplyCoupon\<close> only stores
  what \<^verbatim>\<open>applyCoupon\<close> returns.
\<close>

record 'c screen_state =
  cart :: "'c option"
  contextCart :: "'c option"
  isLoading :: bool
  isRefreshing :: bool
  isAuthenticated :: bool
  updatingItemId :: "jsnum option"
  couponCode :: string
  isApplyingCoupon :: bool
  alerts :: "(string \<times> jsval) list"


text \<open>\<^verbatim>\<open>t(key, fallback)\<close> of the localization context.\<close>

definition translate :: "(string \<rightharpoonup> string) \<Rightarrow> string \<Rightarrow> string \<Rightarrow> string" where
  "translate translations key fallback =
     (case translations key of Some v \<Rightarrow> v | None \<Rightarrow> fallback)"






definition showAlert :: "string \<Rightarrow> jsval \<Rightarrow> 'c screen_state \<Rightarrow> 'c screen_state" where
  "showAlert title msg st = st\<lparr>alerts := alerts st @ [(title, msg)]\<rparr>"






text \<open>
  \<^verbatim>\<open>handleApplyCoupon\<close>; \<open>result\<close> is the settled promise of \<^verbatim>\<open>applyCoupon(couponCode)\<close>.
  \<open>couponPending\<close> is the state while that promise is pending.
\<close>

definition couponPending :: "'c screen_state \<Rightarrow> 'c screen_state" where
  "couponPending st = st\<lparr>isApplyingCoupon := True\<rparr>"

definition handleApplyCoupon ::
  "(string \<rightharpoonup> string) \<Rightarrow> api_error + 'c \<Rightarrow> 'c screen_state \<Rightarrow> 'c screen_state" where
  "handleApplyCoupon tr result st =
     (if trim (couponCode st) = [] then
        showAlert (translate tr ''common.error'' ''Error'')
          (Str (translate tr ''coupon.enter_code'' ''Please enter a coupon code'')) st
      else
        (case result of
           Inr updatedCart \<Rightarrow>
             (let st1 = (couponPending st)\<lparr>cart := Some updatedCart, contextCart := Some updatedCart\<rparr>;
                  st2 = showAlert (translate tr ''common.success'' ''Success'')
                          (Str (translate tr ''coupon.applied'' ''Coupon applied successfully!'')) st1
              in st2\<lparr>couponCode := [], isApplyingCoupon := False\<rparr>)
         | Inl err \<Rightarrow>
             (let msg = js_or (get (get (response err) ''data'') ''message'')
                          (js_or (Str (message err)) (Str ''Failed to apply coupon''));
                  st1 = showAlert (translate tr ''common.error'' ''Error'') msg (couponPending st)
              in st1\<lparr>isApplyingCoupon := False\<rparr>)))"

section \<open>A concrete host\<close>

text \<open>
  For evaluating the code on concrete payloads: an iOS development build without
  \<^verbatim>\<open>EXPO_PUBLIC_API_URL\<close>, locale \<^verbatim>\<open>en\<close>. Its conversions cover decimal literals (sign,
  digits, fraction, exponent, \<^verbatim>\<open>Infinity\<close>), print integers and short decimals, and round
  \<^verbatim>\<open>toFixed(2)\<close> half up on the exact value; its URL parser reads
  \<^verbatim>\<open>http(s)://host[:port][/path][?query][#fragment]\<close>.
\<close>

fun digits_of_nat :: "nat \<Rightarrow> string" where
  "digits_of_nat n =
     (if n < 10 then [char_of (48 + n)]
      else digits_of_nat (n div 10) @ [char_of (48 + n mod 10)])"

declare digits_of_nat.simps [simp del]

fun fraction_digits :: "nat \<Rightarrow> rat \<Rightarrow> string" where
  "fraction_digits 0 r = []"
| "fraction_digits (Suc k) r =
     (if r = 0 then []
      else char_of (48 + nat \<lfloor>r * 10\<rfloor>) # fraction_digits k (r * 10 - of_int \<lfloor>r * 10\<rfloor>))"

definition sample_stringOfNumber :: "jsnum \<Rightarrow> string" where
  "sample_stringOfNumber n =
     (case n of
        NaN \<Rightarrow> ''NaN''
      | PosInf \<Rightarrow> ''Infinity''
      | NegInf \<Rightarrow> ''-Infinity''
      | Fin r \<Rightarrow>
          (let a = \<bar>r\<bar>; whole = nat \<lfloor>a\<rfloor>; frac = a - of_int \<lfloor>a\<rfloor> in
           (if r < 0 then ''-'' else [])
           @ digits_of_nat whole
           @ (if frac = 0 then [] else ''.'' @ fraction_digits 17 frac)))"

definition sample_toFixed2 :: "jsnum \<Rightarrow> string" where
  "sample_toFixed2 n =
     (case n of
        Fin r \<Rightarrow>
          (let ds = digits_of_nat (nat \<lfloor>\<bar>r\<bar> * 100 + 1 / 2\<rfloor>);
               padded = replicate (3 - length ds) (CHR ''0'') @ ds
           in (if r < 0 then ''-'' else [])
              @ take (length padded - 2) padded @ ''.'' @ drop (length padded - 2) padded)
      | _ \<Rightarrow> sample_stringOfNumber n)"

definition parse_exponent :: "string \<Rightarrow> (int \<times> string) option" where
  "parse_exponent s =
     (case s of
        [] \<Rightarrow> None
      | c # rest \<Rightarrow>
          (if c = CHR ''e'' \<or> c = CHR ''E'' then
             (let signed = (startsWith rest ''-'' \<or> startsWith rest ''+'');
                  ds = takeWhile is_digit (if signed then tl rest else rest)
              in if ds = [] then None
                 else Some (if startsWith rest ''-'' then - int (digits_value ds) else int (digits_value ds),
                            dropWhile is_digit (if signed then tl rest else rest)))
           else None))"

definition scale10 :: "rat \<Rightarrow> int \<Rightarrow> rat" where
  "scale10 v e = (if e \<ge> 0 then v * 10 ^ nat e else v / 10 ^ nat (- e))"

text \<open>The longest unsigned decimal literal at the start of a string, and what follows it.\<close>

definition parse_decimal :: "string \<Rightarrow> (rat \<times> string) option" where
  "parse_decimal s =
     (let ip = takeWhile is_digit s;
          r1 = dropWhile is_digit s;
          dotted = startsWith r1 ''.'';
          fp = (if dotted then takeWhile is_digit (tl r1) else []);
          r2 = (if dotted then dropWhile is_digit (tl r1) else r1);
          mantissa = of_nat (digits_value ip) + of_nat (digits_value fp) / 10 ^ length fp
      in if ip = [] \<and> fp = [] then None
         else case parse_exponent r2 of
           Some (e, r3) \<Rightarrow> Some (scale10 mantissa e, r3)
         | None \<Rightarrow> Some (mantissa, r2))"

definition sample_parseFloat :: "string \<Rightarrow> jsnum" where
  "sample_parseFloat s =
     (let t = dropWhile js_whitespace s;
          u = (if startsWith t ''-'' \<or> startsWith t ''+'' then tl t else t)
      in if startsWith u ''Infinity'' then (if startsWith t ''-'' then NegInf else PosInf)
         else case parse_decimal u of
           None \<Rightarrow> NaN
         | Some (v, rest) \<Rightarrow> Fin (if startsWith t ''-'' then - v else v))"

definition sample_numberOfString :: "string \<Rightarrow> jsnum" where
  "sample_numberOfString s =
     (let t = trim s;
          u = (if startsWith t ''-'' \<or> startsWith t ''+'' then tl t else t)
      in if t = [] then Fin 0
         else if u = ''Infinity'' then (if startsWith t ''-'' then NegInf else PosInf)
         else case parse_decimal u of
           Some (v, []) \<Rightarrow> Fin (if startsWith t ''-'' then - v else v)
         | _ \<Rightarrow> NaN)"

definition sample_parseURL :: "string \<Rightarrow> (string \<times> string) option" where
  "sample_parseURL s =
     (if startsWith s ''http://'' \<or> startsWith s ''https://'' then
        (let r = drop (if startsWith s ''https://'' then 8 else 7) s;
             authority = takeWhile (\<lambda>c. c \<notin> set ''/?#'') r;
             after = dropWhile (\<lambda>c. c \<notin> set ''/?#'') r;
             hostname = toLowerCase (takeWhile (\<lambda>c. c \<noteq> CHR '':'') authority);
             pathname = takeWhile (\<lambda>c. c \<notin> set ''?#'') after
         in if hostname = [] then None
            else Some (hostname, if pathname = [] then ''/'' else pathname))
      else None)"

definition sample_host :: host where
  "sample_host =
     \<lparr>envUrl = None, devMode = True, platformOS = ''ios'',
      parseURL = sample_parseURL,
      numberOfString = sample_numberOfString,
      stringOfNumber = sample_stringOfNumber,
      parseFloat = sample_parseFloat,
      toFixed2 = sample_toFixed2,
      currentLocale = ''en''\<rparr>"

subsection \<open>Concrete payloads and screens\<close>

text \<open>The product that \<^verbatim>\<open>normalizeProduct({})\<close> returns: every field at its default.\<close>

definition default_product :: jsval where
  "default_product =
     Obj [(''id'', Num (Fin 0)), (''name'', Str []), (''slug'', Str []), (''description'', Str []),
          (''short_description'', Str []), (''name_en'', Str []), (''name_ar'', Str []),
          (''name_ku'', Str []), (''name_ku_sorani'', Str []), (''name_ku_badini'', Str []),
          (''description_en'', Str []), (''description_ar'', Str []), (''description_ku'', Str []),
          (''description_ku_sorani'', Str []), (''description_ku_badini'', Str []),
          (''price'', Str ''0''), (''compare_price'', Null), (''discount_percentage'', Null),
          (''is_wishlisted'', Undefined), (''status'', Str []), (''is_active'', Undefined),
          (''images'', Arr []), (''thumbnail'', Str []), (''category'', Undefined),
          (''vendor'', Undefined), (''variants'', Arr []), (''in_stock'', Bool False),
          (''average_rating'', Num (Fin 0)), (''reviews_count'', Num (Fin 0))]"





text \<open>Two answers of the network to a mutation: everything fails; the mutation fails and the
  re-fetch succeeds.\<close>

definition network_error :: api_error where
  "network_error = \<lparr>message = ''Network Error'', response = Undefined\<rparr>"




text \<open>A screen whose cart came from \<^verbatim>\<open>normalizeCart\<close>, with one item and a coupon code typed.\<close>

definition coupon_state :: "jsval screen_state" where
  "coupon_state =
     \<lparr>cart = Some (Obj [(''items'', Arr [Obj [(''id'', Num (Fin 1))]]), (''items_count'', Num (Fin 1)),
                        (''subtotal'', Str ''10.00''), (''total'', Str ''10.00'')]),
      contextCart = None, isLoading = False, isRefreshing = False, isAuthenticated = True,
      updatingItemId = None, couponCode = ''SAVE'', isApplyingCoupon = False, alerts = []\<rparr>"

section \<open>Specification-side definitions\<close>

text \<open>
  The truth table of the specification (section 4.1), written down independently of the
  code, by the kind of value.
\<close>

fun toBoolean_table :: "jsval \<Rightarrow> bool" where
  "toBoolean_table (Bool b) = b"
| "toBoolean_table (Num n) = (if n = Fin 1 then True else if n = Fin 0 then False else truthy (Num n))"
| "toBoolean_table (Str s) =
     (if s = ''1'' then True
      else if s = ''0'' then False
      else toLowerCase (trim s) \<in> {''true'', ''yes'', ''on''})"
| "toBoolean_table Null = False"
| "toBoolean_table Undefined = False"
| "toBoolean_table v = truthy v"

text \<open>
  The resolution order of section 4.3, stage by stage. A stage either resolves the field or
  passes; the result is that of the first stage that resolves, else the fallback.
\<close>

fun first_success :: "'a option list \<Rightarrow> 'a \<Rightarrow> 'a" where
  "first_success [] d = d"
| "first_success (None # rs) d = first_success rs d"
| "first_success (Some v # rs) d = v"

definition flat_suffixed :: "string \<Rightarrow> jsval \<Rightarrow> string \<Rightarrow> jsval option" where
  "flat_suffixed locale source field =
     (if truthy (get source (field @ ''_'' @ locale)) then Some (get source (field @ ''_'' @ locale))
      else None)"

definition plain_string :: "jsval \<Rightarrow> string \<Rightarrow> jsval option" where
  "plain_string source field =
     (if is_string (get source field) then Some (get source field) else None)"

definition nonempty_string :: "jsval \<Rightarrow> string \<Rightarrow> jsval option" where
  "nonempty_string source field =
     (if is_string (get source field) \<and> truthy (get source field) then Some (get source field)
      else None)"

definition locale_map :: "string \<Rightarrow> jsval \<Rightarrow> string \<Rightarrow> jsval option" where
  "locale_map locale source field =
     (if typeof_object (get source field) \<and> truthy (get source field) then
        (if truthy (get (get source field) locale) then Some (get (get source field) locale)
         else if truthy (get (get source field) ''en'') then Some (get (get source field) ''en'')
         else None)
      else None)"

definition translations_table :: "string \<Rightarrow> jsval \<Rightarrow> string \<Rightarrow> jsval option" where
  "translations_table locale source field =
     (let table = js_or (get source ''translations'') (get source ''i18n'') in
      if truthy table \<and> truthy (get table locale) \<and> truthy (get (get table locale) field)
      then Some (get (get table locale) field) else None)"

text \<open>The order as the specification words it: stage 2 takes \<^verbatim>\<open>source[field]\<close> whenever it
  is a string.\<close>

definition resolution_as_specified :: "string \<Rightarrow> jsval \<Rightarrow> string \<Rightarrow> jsval \<Rightarrow> jsval" where
  "resolution_as_specified locale source field fallback =
     first_success
       [flat_suffixed locale source field,
        plain_string source field,
        locale_map locale source field,
        translations_table locale source field,
        plain_string source field]
       fallback"

text \<open>The same order with stage 2 restricted to a non-empty string, which leaves the empty
  string to stage 5.\<close>

definition resolution_order :: "string \<Rightarrow> jsval \<Rightarrow> string \<Rightarrow> jsval \<Rightarrow> jsval" where
  "resolution_order locale source field fallback =
     first_success
       [flat_suffixed locale source field,
        nonempty_string source field,
        locale_map locale source field,
        translations_table locale source field,
        plain_string source field]
       fallback"




text \<open>A normalizer applied to its own result, and one field of a result.\<close>

definition twice :: "(jsval \<Rightarrow> js_error + jsval) \<Rightarrow> jsval \<Rightarrow> js_error + jsval" where
  "twice n x = bind_err (n x) n"

definition field_of :: "string \<Rightarrow> js_error + jsval \<Rightarrow> js_error + jsval" where
  "field_of k r = bind_err r (\<lambda>y. Inr (get y k))"

text \<open>
  The fields that reach \<^verbatim>\<open>getImageUrl\<close>, singly or as the entries of a list. A payload is
  image-safe when each of them, in every object nested in it, is a string or falsy.
\<close>

definition scalar_image_keys :: "string list" where
  "scalar_image_keys =
     [''image_url'', ''image'', ''thumbnail'', ''profile_image_url'', ''logo'', ''profile_image'',
      ''cover_image_url'', ''banner'', ''cover_image'']"

definition list_image_keys :: "string list" where
  "list_image_keys = [''hero_images'', ''images'']"
























section \<open>Properties\<close>

subsection \<open>Boolean coercion\<close>

text \<open>
  C10. \<^verbatim>\<open>toBool\<close> follows the truth table of the specification on every value: booleans
  pass through, \<^verbatim>\<open>1\<close>/\<^verbatim>\<open>"1"\<close> give true, \<^verbatim>\<open>0\<close>/\<^verbatim>\<open>"0"\<close> give false, any other string is
  trimmed and lower-cased and is true exactly for "true", "yes", "on" (so "false", "no",
  "off", the empty string and every other string give false), \<^verbatim>\<open>null\<close> and
  \<^verbatim>\<open>undefined\<close> give false, and every other value gives its truthiness. The five values
  of the specification's table are included.
\<close>

theorem toBool_truth_table:
  "toBool v = toBoolean_table v
   \<and> toBool (Num (Fin 1)) = True
   \<and> toBool (Str ''0'') = False
   \<and> toBool (Str ''yes'') = True
   \<and> toBool (Str ''maybe'') = False
   \<and> toBool Undefined = False"
proof -
  have table: "toBool v = toBoolean_table v"
    by (cases v) (auto simp: toBool_def)
  have yes: "toBool (Str ''yes'') = True"
    by (simp add: toBool_def trim_def toLowerCase_def lower_char_def js_whitespace_def)
  have maybe: "toBool (Str ''maybe'') = False"
    by (simp add: toBool_def trim_def toLowerCase_def lower_char_def js_whitespace_def)
  show ?thesis
    using table yes maybe by (simp add: toBool_def)
qed

subsection \<open>Field resolution\<close>

lemma falsy_source_get: "\<not> truthy source \<Longrightarrow> \<not> truthy (get source k) \<and> \<not> is_string (get source k)"
  by (cases source) (auto split: option.splits)

lemma falsy_get_get: "\<not> truthy v \<Longrightarrow> \<not> truthy (get v k)"
  by (cases v) (auto split: option.splits)

text \<open>
  C6 (as amended). For every source, field name, fallback and locale, \<^verbatim>\<open>getLocalizedField\<close>
  returns the first resolution that succeeds in this order: (1) the flat suffixed key
  \<^verbatim>\<open>field_<locale>\<close> if truthy, (2) \<^verbatim>\<open>source[field]\<close> if it is a non-empty string, (3)
  \<^verbatim>\<open>source[field]\<close> if it is a locale-keyed map (the truthy current-locale entry, else the
  truthy \<^verbatim>\<open>en\<close> entry), (4) \<^verbatim>\<open>translations[locale][field]\<close> of the \<^verbatim>\<open>translations\<close> (else
  \<^verbatim>\<open>i18n\<close>) map, (5) \<^verbatim>\<open>source[field]\<close> if it is a string, which at this point is the empty
  string, (6) the fallback. A falsy source resolves nothing and gives the fallback. The two
  examples of the specification hold: \<^verbatim>\<open>{name:"A", name_fr:"B"}\<close> gives "B" under \<^verbatim>\<open>fr\<close>
  and "A" under \<^verbatim>\<open>de\<close>.
\<close>

theorem getLocalizedField_order:
  "getLocalizedField locale source field fallback = resolution_order locale source field fallback
   \<and> getLocalizedField ''fr'' (Obj [(''name'', Str ''A''), (''name_fr'', Str ''B'')]) ''name'' fallback = Str ''B''
   \<and> getLocalizedField ''de'' (Obj [(''name'', Str ''A''), (''name_fr'', Str ''B'')]) ''name'' fallback = Str ''A''"
proof -
  have order: "getLocalizedField locale source field fallback = resolution_order locale source field fallback"
  proof (cases "truthy source")
    case False
    then show ?thesis
      using falsy_source_get [OF False] falsy_get_get
      by (simp add: getLocalizedField_def resolution_order_def flat_suffixed_def nonempty_string_def
            locale_map_def translations_table_def plain_string_def js_or_def Let_def)
  next
    case True
    then show ?thesis
      by (simp add: getLocalizedField_def resolution_order_def flat_suffixed_def
            nonempty_string_def locale_map_def translations_table_def plain_string_def
            readLocalizedValue_def Let_def del: get.simps)
  qed
  have fr: "getLocalizedField ''fr'' (Obj [(''name'', Str ''A''), (''name_fr'', Str ''B'')]) ''name'' fallback = Str ''B''"
    by (simp add: getLocalizedField_def)
  have de: "getLocalizedField ''de'' (Obj [(''name'', Str ''A''), (''name_fr'', Str ''B'')]) ''name'' fallback = Str ''A''"
    by (simp add: getLocalizedField_def readLocalizedValue_def)
  show ?thesis using order fr de by simp
qed

text \<open>
  C6 as stated fails on an empty flat field: for
  \<^verbatim>\<open>{name:"", translations:{fr:{name:"X"}}}\<close> under locale \<^verbatim>\<open>fr\<close> the code skips the empty
  string and returns "X" from the translations map, while the order as stated stops at
  stage 2 with the empty string.
\<close>

theorem getLocalizedField_empty_string_counterexample:
  "getLocalizedField ''fr''
     (Obj [(''name'', Str []), (''translations'', Obj [(''fr'', Obj [(''name'', Str ''X'')])])])
     ''name'' (Str ''F'') = Str ''X''
   \<and> resolution_as_specified ''fr''
     (Obj [(''name'', Str []), (''translations'', Obj [(''fr'', Obj [(''name'', Str ''X'')])])])
     ''name'' (Str ''F'') = Str []"
  by (simp add: getLocalizedField_def readLocalizedValue_def resolution_as_specified_def
        flat_suffixed_def plain_string_def js_or_def)

subsection \<open>Idempotence\<close>

lemma safeString_Str: "safeString h (Str s) fb = s"
  by (simp add: safeString_def)

lemma coalesce_Str: "coalesce (Str s) y = Str s"
  by (simp add: coalesce_def)

lemma coalesce_idem: "coalesce (coalesce a b) b = coalesce a b"
  by (simp add: coalesce_def)

lemma toBool_Bool: "toBool (Bool b) = b"
  by (cases b) (simp_all add: toBool_def)

text \<open>
  C1 (as amended). \<^verbatim>\<open>normalizeAddress\<close>, \<^verbatim>\<open>normalizeOrder\<close>, \<^verbatim>\<open>normalizeUser\<close> and
  \<^verbatim>\<open>normalizeCoupon\<close> are idempotent on every input, under every host: applying the
  normalizer to its own output gives that output again.
\<close>

theorem scalar_normalizers_idempotent:
  "normalizeAddress h (normalizeAddress h x) = normalizeAddress h x
   \<and> normalizeOrder h (normalizeOrder h x) = normalizeOrder h x
   \<and> normalizeUser h (normalizeUser h x) = normalizeUser h x
   \<and> normalizeCoupon h (normalizeCoupon h x) = normalizeCoupon h x"
proof -
  have address: "normalizeAddress h (normalizeAddress h x) = normalizeAddress h x"
    by (simp add: normalizeAddress_def safeString_Str coalesce_Str coalesce_idem toBool_Bool)
  have order: "normalizeOrder h (normalizeOrder h x) = normalizeOrder h x"
    by (simp add: normalizeOrder_def Let_def safeString_Str coalesce_Str coalesce_idem)
  have user: "normalizeUser h (normalizeUser h x) = normalizeUser h x"
    by (simp add: normalizeUser_def Let_def safeString_Str coalesce_Str coalesce_idem toBool_Bool)
  have coupon: "normalizeCoupon h (normalizeCoupon h x) = normalizeCoupon h x"
    by (simp add: normalizeCoupon_def Let_def safeString_Str coalesce_Str coalesce_idem toBool_Bool)
  show ?thesis using address order user coupon by simp
qed

lemma sample_parseURL_logo:
  "sample_parseURL ''http://localhost:8000/storage/a.png?v=1'' = Some (''localhost'', ''/storage/a.png'')"
  by code_simp

text \<open>
  C1 as stated fails for the seven other normalizers, under the concrete host (development
  build, locale \<^verbatim>\<open>en\<close>). \<^verbatim>\<open>normalizeCart\<close> reads \<^verbatim>\<open>summary.total\<close> but writes \<^verbatim>\<open>total\<close>: a second
  pass finds no \<^verbatim>\<open>summary\<close> and resets the total to "0". \<^verbatim>\<open>normalizeProductVariant\<close> moves
  \<^verbatim>\<open>size\<close> into \<^verbatim>\<open>attributes\<close>: a second pass finds no \<^verbatim>\<open>size\<close> and empties \<^verbatim>\<open>attributes\<close>;
  \<^verbatim>\<open>normalizeProduct\<close> and \<^verbatim>\<open>normalizeCartItem\<close> embed variants. \<^verbatim>\<open>normalizeSlide\<close> and
  \<^verbatim>\<open>normalizeCategory\<close> resolve a locale-keyed map to its \<^verbatim>\<open>en\<close> entry but store its string
  form under \<^verbatim>\<open>title_en\<close>/\<^verbatim>\<open>name_en\<close>, which a second pass resolves first. \<^verbatim>\<open>normalizeVendor\<close>
  rewrites its own loopback URL on a second pass and drops the query string.
\<close>

theorem normalizers_not_idempotent_counterexample:
  "field_of ''total'' (normalizeCart sample_host (Obj [(''summary'', Obj [(''total'', Str ''12.00'')])]))
     = Inr (Str ''12.00'')
   \<and> field_of ''total'' (twice (normalizeCart sample_host) (Obj [(''summary'', Obj [(''total'', Str ''12.00'')])]))
     = Inr (Str ''0'')
   \<and> get (normalizeProductVariant sample_host (Obj [(''size'', Str ''L'')])) ''attributes''
     = Obj [(''size'', Str ''L'')]
   \<and> get (normalizeProductVariant sample_host (normalizeProductVariant sample_host (Obj [(''size'', Str ''L'')])))
       ''attributes''
     = Obj []
   \<and> field_of ''variants'' (normalizeProduct sample_host (Obj [(''variants'', Arr [Obj [(''size'', Str ''L'')]])]))
     = Inr (Arr [Obj [(''id'', Num (Fin 0)), (''name'', Str ''L''), (''sku'', Str []), (''price'', Str ''0''),
                      (''compare_price'', Null), (''stock'', Num (Fin 0)),
                      (''attributes'', Obj [(''size'', Str ''L'')])]])
   \<and> field_of ''variants''
       (twice (normalizeProduct sample_host) (Obj [(''variants'', Arr [Obj [(''size'', Str ''L'')]])]))
     = Inr (Arr [Obj [(''id'', Num (Fin 0)), (''name'', Str ''L''), (''sku'', Str []), (''price'', Str ''0''),
                      (''compare_price'', Null), (''stock'', Num (Fin 0)), (''attributes'', Obj [])]])
   \<and> field_of ''variant'' (normalizeCartItem sample_host (Obj [(''variant'', Obj [(''size'', Str ''L'')])]))
     = Inr (Obj [(''id'', Num (Fin 0)), (''name'', Str ''L''), (''sku'', Str []), (''price'', Str ''0''),
                 (''compare_price'', Null), (''stock'', Num (Fin 0)),
                 (''attributes'', Obj [(''size'', Str ''L'')])])
   \<and> field_of ''variant''
       (twice (normalizeCartItem sample_host) (Obj [(''variant'', Obj [(''size'', Str ''L'')])]))
     = Inr (Obj [(''id'', Num (Fin 0)), (''name'', Str ''L''), (''sku'', Str []), (''price'', Str ''0''),
                 (''compare_price'', Null), (''stock'', Num (Fin 0)), (''attributes'', Obj [])])
   \<and> field_of ''title'' (normalizeSlide sample_host (Obj [(''title'', Obj [(''en'', Str ''Sale'')])]))
     = Inr (Str ''Sale'')
   \<and> field_of ''title'' (twice (normalizeSlide sample_host) (Obj [(''title'', Obj [(''en'', Str ''Sale'')])]))
     = Inr (Str ''[object Object]'')
   \<and> field_of ''name'' (normalizeCategory sample_host (Obj [(''name'', Obj [(''en'', Str ''Shoes'')])]))
     = Inr (Str ''Shoes'')
   \<and> field_of ''name'' (twice (normalizeCategory sample_host) (Obj [(''name'', Obj [(''en'', Str ''Shoes'')])]))
     = Inr (Str ''[object Object]'')
   \<and> field_of ''logo'' (normalizeVendor sample_host (Obj [(''logo'', Str ''a.png?v=1'')]))
     = Inr (Str ''http://localhost:8000/storage/a.png?v=1'')
   \<and> field_of ''logo'' (twice (normalizeVendor sample_host) (Obj [(''logo'', Str ''a.png?v=1'')]))
     = Inr (Str ''http://localhost:8000/storage/a.png'')"
proof -
  have cart: "field_of ''total'' (normalizeCart sample_host (Obj [(''summary'', Obj [(''total'', Str ''12.00'')])]))
     = Inr (Str ''12.00'')
   \<and> field_of ''total'' (twice (normalizeCart sample_host) (Obj [(''summary'', Obj [(''total'', Str ''12.00'')])]))
     = Inr (Str ''0'')"
    by (simp add: twice_def field_of_def normalizeCart_def bind_err_def unwrapCollection_def
          sum_quantities_def safeNumber_def safeString_def coalesce_def Let_def)
  have variant_attrs: "get (normalizeProductVariant sample_host (Obj [(''size'', Str ''L'')])) ''attributes''
     = Obj [(''size'', Str ''L'')]
   \<and> get (normalizeProductVariant sample_host (normalizeProductVariant sample_host (Obj [(''size'', Str ''L'')])))
       ''attributes''
     = Obj []"
    by (simp add: normalizeProductVariant_def safeNumber_def safeString_def coalesce_def Let_def)
  have prod: "field_of ''variants'' (normalizeProduct sample_host (Obj [(''variants'', Arr [Obj [(''size'', Str ''L'')]])]))
     = Inr (Arr [Obj [(''id'', Num (Fin 0)), (''name'', Str ''L''), (''sku'', Str []), (''price'', Str ''0''),
                      (''compare_price'', Null), (''stock'', Num (Fin 0)),
                      (''attributes'', Obj [(''size'', Str ''L'')])]])
   \<and> field_of ''variants''
       (twice (normalizeProduct sample_host) (Obj [(''variants'', Arr [Obj [(''size'', Str ''L'')]])]))
     = Inr (Arr [Obj [(''id'', Num (Fin 0)), (''name'', Str ''L''), (''sku'', Str []), (''price'', Str ''0''),
                      (''compare_price'', Null), (''stock'', Num (Fin 0)), (''attributes'', Obj [])]])"
    by (simp add: twice_def field_of_def normalizeProduct_def product_thumbnail_def
          normalizeProductVariant_def getImageUrl_def bind_err_def unwrapCollection_def safeNumber_def
          safeString_def coalesce_def js_or_def getLocalizedField_def readLocalizedValue_def
          sample_host_def Let_def)
  have entry: "field_of ''variant'' (normalizeCartItem sample_host (Obj [(''variant'', Obj [(''size'', Str ''L'')])]))
     = Inr (Obj [(''id'', Num (Fin 0)), (''name'', Str ''L''), (''sku'', Str []), (''price'', Str ''0''),
                 (''compare_price'', Null), (''stock'', Num (Fin 0)),
                 (''attributes'', Obj [(''size'', Str ''L'')])])
   \<and> field_of ''variant''
       (twice (normalizeCartItem sample_host) (Obj [(''variant'', Obj [(''size'', Str ''L'')])]))
     = Inr (Obj [(''id'', Num (Fin 0)), (''name'', Str ''L''), (''sku'', Str []), (''price'', Str ''0''),
                 (''compare_price'', Null), (''stock'', Num (Fin 0)), (''attributes'', Obj [])])"
    by (simp add: twice_def field_of_def normalizeCartItem_def normalizeProduct_def product_thumbnail_def
          normalizeProductVariant_def getImageUrl_def bind_err_def unwrapCollection_def safeNumber_def
          safeString_def coalesce_def js_or_def getLocalizedField_def readLocalizedValue_def
          sample_host_def Let_def)
  have slide: "field_of ''title'' (normalizeSlide sample_host (Obj [(''title'', Obj [(''en'', Str ''Sale'')])]))
     = Inr (Str ''Sale'')
   \<and> field_of ''title'' (twice (normalizeSlide sample_host) (Obj [(''title'', Obj [(''en'', Str ''Sale'')])]))
     = Inr (Str ''[object Object]'')"
    by (simp add: twice_def field_of_def normalizeSlide_def getImageUrl_def bind_err_def safeString_def
          coalesce_def js_or_def getLocalizedField_def readLocalizedValue_def sample_host_def Let_def)
  have category: "field_of ''name'' (normalizeCategory sample_host (Obj [(''name'', Obj [(''en'', Str ''Shoes'')])]))
     = Inr (Str ''Shoes'')
   \<and> field_of ''name'' (twice (normalizeCategory sample_host) (Obj [(''name'', Obj [(''en'', Str ''Shoes'')])]))
     = Inr (Str ''[object Object]'')"
    by (simp add: twice_def field_of_def getImageUrl_def bind_err_def unwrapCollection_def safeString_def
          coalesce_def js_or_def getLocalizedField_def readLocalizedValue_def sample_host_def Let_def)
  have vendor: "field_of ''logo'' (normalizeVendor sample_host (Obj [(''logo'', Str ''a.png?v=1'')]))
     = Inr (Str ''http://localhost:8000/storage/a.png?v=1'')
   \<and> field_of ''logo'' (twice (normalizeVendor sample_host) (Obj [(''logo'', Str ''a.png?v=1'')]))
     = Inr (Str ''http://localhost:8000/storage/a.png'')"
    by (simp add: twice_def field_of_def normalizeVendor_def getImageUrl_def getBaseUrl_def bind_err_def
          safeString_def coalesce_def js_or_def startsWith_def sample_parseURL_logo sample_host_def
          Let_def)
  show ?thesis
    using cart variant_attrs prod entry slide category vendor by (intro conjI) blast+
qed

subsection \<open>Totality\<close>






lemma scalar_not_list: "k \<in> set scalar_image_keys \<Longrightarrow> k \<notin> set list_image_keys"
  by (auto simp: scalar_image_keys_def list_image_keys_def)


























subsection \<open>Derived fields\<close>

text \<open>
  C9. For the product payload \<^verbatim>\<open>{in_stock: null, variants: [{stock: 5}]}\<close> the normalized
  product has a variant with stock 5 and \<^verbatim>\<open>in_stock\<close> false, while the same payload without
  \<^verbatim>\<open>in_stock\<close> gives true: the test \<^verbatim>\<open>product?.in_stock !== undefined\<close> takes \<^verbatim>\<open>null\<close> for an
  explicit value. The sibling tests of \<^verbatim>\<open>is_verified\<close>, \<^verbatim>\<open>is_wishlisted\<close>, \<^verbatim>\<open>is_active\<close> and
  \<^verbatim>\<open>is_vendor\<close> exclude both \<^verbatim>\<open>undefined\<close> and \<^verbatim>\<open>null\<close>: a vendor with \<^verbatim>\<open>is_verified: null\<close>
  and status "approved" is verified.
\<close>

theorem normalizeProduct_null_in_stock:
  "field_of ''in_stock''
     (normalizeProduct h (Obj [(''in_stock'', Null), (''variants'', Arr [Obj [(''stock'', Num (Fin 5))]])]))
     = Inr (Bool False)
   \<and> bind_err (normalizeProduct h
          (Obj [(''in_stock'', Null), (''variants'', Arr [Obj [(''stock'', Num (Fin 5))]])]))
       (\<lambda>p. Inr (map (\<lambda>v. get v ''stock'') (elements (get p ''variants''))))
     = Inr [Num (Fin 5)]
   \<and> field_of ''in_stock''
     (normalizeProduct h (Obj [(''variants'', Arr [Obj [(''stock'', Num (Fin 5))]])]))
     = Inr (Bool True)
   \<and> field_of ''is_verified''
     (normalizeVendor h (Obj [(''is_verified'', Null), (''status'', Str ''approved'')]))
     = Inr (Bool True)"
  by (simp add: field_of_def normalizeProduct_def normalizeVendor_def product_thumbnail_def
        normalizeProductVariant_def getImageUrl_def bind_err_def unwrapCollection_def
        safeNumber_def coalesce_def toBool_def Let_def)

subsection \<open>Nested references\<close>

lemma bind_err_Inr: "bind_err m f = Inr y \<Longrightarrow> \<exists>x. m = Inr x \<and> f x = Inr y"
  by (cases m) (simp_all add: bind_err_def)

lemma normalizeProduct_empty: "normalizeProduct h (Obj []) = Inr default_product"
  by (simp add: normalizeProduct_def product_thumbnail_def getImageUrl_def bind_err_def
        unwrapCollection_def safeNumber_def safeString_def coalesce_def js_or_def
        getLocalizedField_def readLocalizedValue_def default_product_def Let_def)

lemma normalizeProduct_refs:
  assumes "normalizeProduct h rawProduct = Inr p"
  shows "(if truthy (get rawProduct ''category'') then normalizeCategory h (get rawProduct ''category'')
          else Inr Undefined) = Inr (get p ''category'')"
    and "(if truthy (get rawProduct ''vendor'') then normalizeVendor h (get rawProduct ''vendor'')
          else Inr Undefined) = Inr (get p ''vendor'')"
  using assms
  by (auto simp: normalizeProduct_def Let_def dest!: bind_err_Inr)

lemma normalizeCartItem_refs:
  assumes "normalizeCartItem h rawItem = Inr ci"
  shows "normalizeProduct h (coalesce (get rawItem ''product'') (Obj [])) = Inr (get ci ''product'')"
    and "get ci ''variant'' = (if truthy (get rawItem ''variant'')
                               then normalizeProductVariant h (get rawItem ''variant'') else Null)"
  using assms
  by (auto simp: normalizeCartItem_def Let_def dest!: bind_err_Inr)

text \<open>
  C3 (as amended). \<^verbatim>\<open>normalizeProduct\<close> normalizes \<^verbatim>\<open>category\<close> and \<^verbatim>\<open>vendor\<close> exactly when the
  raw field is truthy and leaves them \<^verbatim>\<open>undefined\<close> otherwise. \<^verbatim>\<open>normalizeCartItem\<close> does the
  same for \<^verbatim>\<open>variant\<close>, with \<^verbatim>\<open>null\<close> for an absent one; its \<^verbatim>\<open>product\<close> is always a
  normalized product: that of the raw product when there is one, and the all-defaults
  product \<^verbatim>\<open>normalizeProduct({})\<close> when the raw product is \<^verbatim>\<open>null\<close> or \<^verbatim>\<open>undefined\<close>.
\<close>

theorem nested_references:
  assumes "normalizeProduct h rawProduct = Inr p" and "normalizeCartItem h rawItem = Inr ci"
  shows "(\<not> truthy (get rawProduct ''category'') \<longrightarrow> get p ''category'' = Undefined)
       \<and> (truthy (get rawProduct ''category'')
            \<longrightarrow> normalizeCategory h (get rawProduct ''category'') = Inr (get p ''category''))
       \<and> (\<not> truthy (get rawProduct ''vendor'') \<longrightarrow> get p ''vendor'' = Undefined)
       \<and> (truthy (get rawProduct ''vendor'')
            \<longrightarrow> normalizeVendor h (get rawProduct ''vendor'') = Inr (get p ''vendor''))
       \<and> (\<not> truthy (get rawItem ''variant'') \<longrightarrow> get ci ''variant'' = Null)
       \<and> (truthy (get rawItem ''variant'')
            \<longrightarrow> get ci ''variant'' = normalizeProductVariant h (get rawItem ''variant''))
       \<and> (nullish (get rawItem ''product'') \<longrightarrow> get ci ''product'' = default_product)
       \<and> (\<not> nullish (get rawItem ''product'')
            \<longrightarrow> normalizeProduct h (get rawItem ''product'') = Inr (get ci ''product''))"
proof -
  note p = normalizeProduct_refs [OF assms(1)]
  note c = normalizeCartItem_refs [OF assms(2)]
  have stub: "nullish (get rawItem ''product'') \<longrightarrow> get ci ''product'' = default_product"
    using c(1) by (auto simp: coalesce_def normalizeProduct_empty)
  have given: "\<not> nullish (get rawItem ''product'')
            \<longrightarrow> normalizeProduct h (get rawItem ''product'') = Inr (get ci ''product'')"
    using c(1) by (auto simp: coalesce_def)
  show ?thesis using p c(2) stub given by (auto split: if_splits)
qed

theorem nested_references_witness:
  "normalizeProduct sample_host (Obj []) = Inr default_product
   \<and> normalizeCartItem sample_host (Obj [(''id'', Num (Fin 7))])
       = Inr (Obj [(''id'', Num (Fin 7)), (''product'', default_product), (''variant'', Null),
                   (''quantity'', Num (Fin 0)), (''unit_price'', Str ''0''), (''subtotal'', Str ''0'')])
   \<and> get default_product ''category'' = Undefined
   \<and> get default_product ''vendor'' = Undefined"
proof -
  have run1: "normalizeProduct sample_host (Obj []) = Inr default_product"
    by (rule normalizeProduct_empty)
  have run2: "normalizeCartItem sample_host (Obj [(''id'', Num (Fin 7))])
       = Inr (Obj [(''id'', Num (Fin 7)), (''product'', default_product), (''variant'', Null),
                   (''quantity'', Num (Fin 0)), (''unit_price'', Str ''0''), (''subtotal'', Str ''0'')])"
    by (simp add: normalizeCartItem_def normalizeProduct_empty bind_err_def coalesce_def
          safeNumber_def safeString_def)
  from nested_references [OF run1 run2] show ?thesis using run1 run2 by simp
qed

text \<open>
  C3 as stated fails for the cart item: an item payload without \<^verbatim>\<open>product\<close> does not get an
  omitted reference but the product populated with empty defaults.
\<close>

theorem normalizeCartItem_product_stub_counterexample:
  "field_of ''product''
     (normalizeCartItem sample_host (Obj [(''id'', Num (Fin 7)), (''quantity'', Num (Fin 2))]))
   = Inr (Obj [(''id'', Num (Fin 0)), (''name'', Str []), (''slug'', Str []), (''description'', Str []),
          (''short_description'', Str []), (''name_en'', Str []), (''name_ar'', Str []),
          (''name_ku'', Str []), (''name_ku_sorani'', Str []), (''name_ku_badini'', Str []),
          (''description_en'', Str []), (''description_ar'', Str []), (''description_ku'', Str []),
          (''description_ku_sorani'', Str []), (''description_ku_badini'', Str []),
          (''price'', Str ''0''), (''compare_price'', Null), (''discount_percentage'', Null),
          (''is_wishlisted'', Undefined), (''status'', Str []), (''is_active'', Undefined),
          (''images'', Arr []), (''thumbnail'', Str []), (''category'', Undefined),
          (''vendor'', Undefined), (''variants'', Arr []), (''in_stock'', Bool False),
          (''average_rating'', Num (Fin 0)), (''reviews_count'', Num (Fin 0))])"
  by (simp add: field_of_def normalizeCartItem_def normalizeProduct_empty default_product_def
        bind_err_def coalesce_def)

subsection \<open>Cart aggregates\<close>










subsection \<open>Optimistic quantity change\<close>









subsection \<open>Failed mutations\<close>








subsection \<open>Coupons\<close>

lemma normalizeCart_shape:
  assumes "normalizeCart h payload = Inr c"
  shows "\<exists>its n s t. c = Obj [(''items'', Arr its), (''items_count'', Num n),
                              (''subtotal'', Str s), (''total'', Str t)]"
  using bind_err_Inr [OF assms [unfolded normalizeCart_def]] by (auto simp: Let_def)

text \<open>
  C8 (as amended). \<^verbatim>\<open>handleApplyCoupon\<close> changes no cart while the request is pending (only
  the busy flag). \<^verbatim>\<open>applyCoupon\<close> fetches the cart together with posting the coupon; on
  success the cart on screen becomes that freshly fetched, normalized cart with its
  \<^verbatim>\<open>items\<close> and \<^verbatim>\<open>items_count\<close> as fetched, and with \<^verbatim>\<open>subtotal\<close> and \<^verbatim>\<open>total\<close> taken from the
  coupon response where it has them (else from the fetched cart), as strings. On failure
  the cart is unchanged.
\<close>

theorem applyCoupon_not_optimistic:
  assumes "applyCoupon h (Inr cartData) (Inr couponData) = Inr c" and "trim (couponCode st) \<noteq> []"
  shows "cart (couponPending st) = cart st \<and> contextCart (couponPending st) = contextCart st
       \<and> cart (handleApplyCoupon tr (Inr c) st) = Some c
       \<and> contextCart (handleApplyCoupon tr (Inr c) st) = Some c
       \<and> (\<exists>fetched. normalizeCart h cartData = Inr fetched
            \<and> get c ''items'' = get fetched ''items''
            \<and> get c ''items_count'' = get fetched ''items_count''
            \<and> get c ''subtotal''
                = Str (to_string h (coalesce (get (coalesce couponData (Obj [])) ''subtotal'')
                                      (get fetched ''subtotal'')))
            \<and> get c ''total''
                = Str (to_string h (coalesce (get (coalesce couponData (Obj [])) ''total'')
                                      (get fetched ''total''))))
       \<and> cart (handleApplyCoupon tr (Inl err) st) = cart st
       \<and> contextCart (handleApplyCoupon tr (Inl err) st) = contextCart st"
proof -
  obtain fetched where f: "normalizeCart h cartData = Inr fetched"
    using assms(1) by (auto simp: applyCoupon_def split: sum.splits)
  obtain its n s t where shape: "fetched = Obj [(''items'', Arr its), (''items_count'', Num n),
                              (''subtotal'', Str s), (''total'', Str t)]"
    using normalizeCart_shape [OF f] by blast
  have c: "c = spread_with
                 (spread_with fetched ''subtotal''
                    (Str (to_string h (coalesce (get (coalesce couponData (Obj [])) ''subtotal'')
                                         (get fetched ''subtotal'')))))
                 ''total''
                 (Str (to_string h (coalesce (get (coalesce couponData (Obj [])) ''total'')
                                      (get fetched ''total''))))"
    using assms(1) f by (simp add: applyCoupon_def Let_def)
  have merged: "get c ''items'' = get fetched ''items''
            \<and> get c ''items_count'' = get fetched ''items_count''
            \<and> get c ''subtotal''
                = Str (to_string h (coalesce (get (coalesce couponData (Obj [])) ''subtotal'')
                                      (get fetched ''subtotal'')))
            \<and> get c ''total''
                = Str (to_string h (coalesce (get (coalesce couponData (Obj [])) ''total'')
                                      (get fetched ''total'')))"
    unfolding c by (simp add: shape)
  have pending: "cart (couponPending st) = cart st \<and> contextCart (couponPending st) = contextCart st"
    by (simp add: couponPending_def)
  have stored: "cart (handleApplyCoupon tr (Inr c) st) = Some c
       \<and> contextCart (handleApplyCoupon tr (Inr c) st) = Some c"
    using assms(2) by (simp add: handleApplyCoupon_def couponPending_def showAlert_def Let_def)
  have failed: "cart (handleApplyCoupon tr (Inl err) st) = cart st
       \<and> contextCart (handleApplyCoupon tr (Inl err) st) = contextCart st"
    using assms(2) by (simp add: handleApplyCoupon_def couponPending_def showAlert_def Let_def)
  show ?thesis using f merged pending stored failed by blast
qed

lemma sample_applyCoupon:
  "applyCoupon sample_host (Inr (Obj [(''items'', Arr [])]))
       (Inr (Obj [(''subtotal'', Str ''5.00''), (''total'', Str ''4.00'')]))
   = Inr (Obj [(''items'', Arr []), (''items_count'', Num (Fin 0)),
               (''subtotal'', Str ''5.00''), (''total'', Str ''4.00'')])"
  by (simp add: applyCoupon_def normalizeCart_def bind_err_def unwrapCollection_def
        sum_quantities_def safeNumber_def safeString_def coalesce_def Let_def)

theorem applyCoupon_not_optimistic_witness:
  "applyCoupon sample_host (Inr (Obj [(''items'', Arr [])]))
       (Inr (Obj [(''subtotal'', Str ''5.00''), (''total'', Str ''4.00'')]))
     = Inr (Obj [(''items'', Arr []), (''items_count'', Num (Fin 0)),
               (''subtotal'', Str ''5.00''), (''total'', Str ''4.00'')])
   \<and> trim (couponCode coupon_state) \<noteq> []
   \<and> cart (couponPending coupon_state) = cart coupon_state
   \<and> cart (handleApplyCoupon Map.empty
        (Inr (Obj [(''items'', Arr []), (''items_count'', Num (Fin 0)),
                   (''subtotal'', Str ''5.00''), (''total'', Str ''4.00'')])) coupon_state)
     = Some (Obj [(''items'', Arr []), (''items_count'', Num (Fin 0)),
                  (''subtotal'', Str ''5.00''), (''total'', Str ''4.00'')])"
proof -
  have code: "trim (couponCode coupon_state) \<noteq> []"
    by (simp add: coupon_state_def trim_def js_whitespace_def)
  from applyCoupon_not_optimistic [OF sample_applyCoupon code, of Map.empty network_error]
  show ?thesis using sample_applyCoupon code by simp
qed

text \<open>
  C8 as stated fails when the cart on screen differs from the server's: the items on
  screen are replaced by the fetched ones, here an empty list, not left untouched.
\<close>

theorem applyCoupon_replaces_items_counterexample:
  "bind_err (applyCoupon sample_host (Inr (Obj [(''items'', Arr [])]))
              (Inr (Obj [(''subtotal'', Str ''5.00''), (''total'', Str ''4.00'')])))
     (\<lambda>c. Inr (map_option (\<lambda>v. get v ''items'') (cart (handleApplyCoupon Map.empty (Inr c) coupon_state))))
     = Inr (Some (Arr []))
   \<and> map_option (\<lambda>v. get v ''items'') (cart coupon_state) = Some (Arr [Obj [(''id'', Num (Fin 1))]])"
proof -
  have code: "trim (couponCode coupon_state) \<noteq> []"
    by (simp add: coupon_state_def trim_def js_whitespace_def)
  have before: "map_option (\<lambda>v. get v ''items'') (cart coupon_state) = Some (Arr [Obj [(''id'', Num (Fin 1))]])"
    by (simp add: coupon_state_def)
  show ?thesis
    using code before
    by (simp add: sample_applyCoupon bind_err_def handleApplyCoupon_def couponPending_def
          showAlert_def Let_def)
qed

end
